theory Spec2Isabelle
  imports Main "HOL-Library.AList"
begin

section \<open>Python values, errors and traces\<close>

text \<open>
  The worker is effectful Python. Every function of the model returns the list of
  observable events it performed, in order, together with either the exception that
  ended it (\<open>Inl\<close>) or its return value (\<open>Inr\<close>).
\<close>

datatype error =
    AssertionError string
  | NotImplementedError string
  | TypeError string
  | ValueError string
  | KeyError string
  | Raised string

type_synonym ('ev, 'r) run = "'ev list \<times> (error + 'r)"

definition ret :: "'r \<Rightarrow> ('ev, 'r) run" where
  "ret r = ([], Inr r)"

definition raise :: "error \<Rightarrow> ('ev, 'r) run" where
  "raise e = ([], Inl e)"

definition emit :: "'ev \<Rightarrow> ('ev, unit) run" where
  "emit ev = ([ev], Inr ())"

text \<open>\<open>prepend evs m\<close>: the events \<open>evs\<close> happen, then \<open>m\<close> runs.\<close>

definition prepend :: "'ev list \<Rightarrow> ('ev, 'r) run \<Rightarrow> ('ev, 'r) run" where
  "prepend evs m = (evs @ fst m, snd m)"

definition bind :: "('ev, 'a) run \<Rightarrow> ('a \<Rightarrow> ('ev, 'b) run) \<Rightarrow> ('ev, 'b) run" where
  "bind m f =
     (case m of
        (es, Inl e) \<Rightarrow> (es, Inl e)
      | (es, Inr a) \<Rightarrow> (case f a of (es', r) \<Rightarrow> (es @ es', r)))"

fun str_nat :: "nat \<Rightarrow> string" where
  "str_nat n =
     (if n < 10 then [char_of (48 + n)]
      else str_nat (n div 10) @ [char_of (48 + n mod 10)])"

declare str_nat.simps [simp del]

definition str_int :: "int \<Rightarrow> string" where
  "str_int i = (if i < 0 then CHR ''-'' # str_nat (nat (- i)) else str_nat (nat i))"

text \<open>Python truthiness of the configuration values the worker tests.\<close>

definition truthy_int :: "int option \<Rightarrow> bool" where
  "truthy_int x = (case x of None \<Rightarrow> False | Some i \<Rightarrow> i \<noteq> 0)"

text \<open>
  A job function slot (\<open>self['map']\<close>, \<open>self['reduce']\<close>) holds \<open>None\<close>, a native
  callable, or the dict of files of an external program.
\<close>

datatype 'f slot = Unset | Fn 'f | ExtProgram "(string \<times> string) list"

fun truthy_slot :: "'f slot \<Rightarrow> bool" where
  "truthy_slot Unset = False"
| "truthy_slot (Fn f) = True"
| "truthy_slot (ExtProgram files) = (files \<noteq> [])"

fun is_dict :: "'f slot \<Rightarrow> bool" where
  "is_dict (ExtProgram files) = True"
| "is_dict _ = False"

section \<open>Events and collaborators\<close>

text \<open>
  Status messages are kept symbolic: \<open>Template t k\<close> is \<open>t % k\<close> and \<open>Done m\<close> is
  \<open>"Done: %s" % m\<close>.
\<close>

datatype message = Template string int | Done message

datatype mode = Map | Reduce

datatype sink = Sink "string option"

type_synonym ('k, 'v) buf = "('k \<times> 'v) list"

datatype ('a, 'p) reduce_args =
    Args2 "'a list" 'p
  | Args3 "'a list" sink 'p

text \<open>
  The events of a task run. \<open>Status m\<close> is one call \<open>events.Status(m).send()\<close>;
  \<open>Add part k v\<close> is one call \<open>output(part).add(k, v)\<close> made by the worker itself;
  \<open>SinkAdd k v\<close> is a write a three-argument reduce function makes on the sink it was
  given; \<open>CombinerCall part k v buf final params\<close> is one call of the combiner on the
  buffer object \<open>bufs[part]\<close>.
\<close>

datatype ('a, 'k, 'v, 'p) event =
    Status message
  | ExternalPrepare 'p mode
  | ExternalClose
  | InitCall mode "'a list" 'p
  | MapCall 'a 'p
  | PartitionCall 'k int 'p
  | CombinerCall "string option" "'k option" "'v option" "('k, 'v) buf" bool 'p
  | Add "string option" 'k 'v
  | ReduceCall "('a, 'p) reduce_args"
  | SinkAdd 'k 'v

text \<open>
  User-supplied functions are functions of their arguments that either raise (\<open>Inl\<close>)
  or return. An init function receives the entry iterator: it returns how many entries
  it takes from it. A combiner mutates the buffer it is given: it returns the buffer's
  new contents with its result (\<open>None\<close> or a sequence of records). A reduce function
  takes entries from the iterator, returns a sequence of records and, when it was handed
  the sink, writes records to it.
\<close>

type_synonym ('a, 'k, 'v, 'p) map_fn = "'a \<Rightarrow> 'p \<Rightarrow> string + ('k \<times> 'v) list"
type_synonym ('a, 'p) init_fn = "'a list \<Rightarrow> 'p \<Rightarrow> string + nat"
type_synonym ('k, 'p) partition_fn = "'k \<Rightarrow> int \<Rightarrow> 'p \<Rightarrow> string + int"
type_synonym ('k, 'v, 'p) combiner_fn =
  "'k option \<Rightarrow> 'v option \<Rightarrow> ('k, 'v) buf \<Rightarrow> bool \<Rightarrow> 'p
     \<Rightarrow> string + (('k, 'v) buf \<times> ('k \<times> 'v) list option)"

record ('k, 'v) reduce_result =
  taken :: nat
  returned :: "('k \<times> 'v) list"
  written :: "('k \<times> 'v) list"

record ('a, 'k, 'v, 'p) reduce_fn =
  argcount :: nat
  call :: "('a, 'p) reduce_args \<Rightarrow> string + ('k, 'v) reduce_result"

text \<open>The configuration \<open>self[...]\<close> of the worker.\<close>

record ('a, 'k, 'v, 'p) worker =
  self_version :: string
  self_save :: bool
  self_map :: "('a, 'k, 'v, 'p) map_fn slot"
  self_map_init :: "('a, 'p) init_fn"
  self_combiner :: "('k, 'v, 'p) combiner_fn option"
  self_partition :: "('k, 'p) partition_fn"
  self_partitions :: "int option"
  self_reduce :: "('a, 'k, 'v, 'p) reduce_fn slot"
  self_reduce_init :: "('a, 'p) init_fn"
  self_merge_partitions :: bool
  self_sort :: bool
  self_sort_buffer_size :: string
  self_status_interval :: "int option"
  self_params :: 'p
  self_ext_params :: 'p

text \<open>
  The task and the modules the worker calls that are not part of this file:
  \<open>sys.version_info\<close>, \<open>disco.events\<close>, \<open>disco.worker.classic.external\<close>,
  \<open>disco.task\<close>, \<open>disco.util\<close> and \<open>disk_sort\<close>. They are parameters of the model.
  \<open>events_send m\<close> is \<open>None\<close> when \<open>events.Status(m).send()\<close> returns and \<open>Some e\<close>
  when it raises \<open>e\<close>.
\<close>

record ('a, 'i) task =
  task_mode :: mode
  task_taskid :: int
  task_input :: "'a list"
  task_inputs :: "'i list"
  task_path :: "string \<Rightarrow> string"

record ('a, 'k, 'v, 'p, 'i, 'u) env =
  sys_version :: string
  events_send :: "message \<Rightarrow> string option"
  external_prepare_map :: "'p \<Rightarrow> ('a, 'k, 'v, 'p) map_fn"
  external_prepare_reduce :: "'p \<Rightarrow> ('a, 'k, 'v, 'p) reduce_fn"
  util_ispartitioned :: "'i list \<Rightarrow> bool"
  util_inputlist :: "'i list \<Rightarrow> string option \<Rightarrow> 'u list"
  util_shuffled :: "'u list \<Rightarrow> 'u list"
  SerialInput :: "'u list \<Rightarrow> 'a list"
  disk_sort :: "'a list \<Rightarrow> string \<Rightarrow> string \<Rightarrow> 'a list"

section \<open>Progress reporter\<close>

text \<open>\<open>status(message)\<close>: the send is attempted, and what it raises is raised.\<close>

definition status ::
  "('a, 'k, 'v, 'p, 'i, 'u) env \<Rightarrow> message \<Rightarrow> (('a, 'k, 'v, 'p) event, unit) run" where
  "status env message =
     (case events_send env message of
        None \<Rightarrow> ([Status message], Inr ())
      | Some e \<Rightarrow> ([Status message], Inl (Raised e)))"

text \<open>
  A generator over a finite input, unrolled: each \<open>next()\<close> performs some events and then
  yields an item (\<open>Yield\<close>), is exhausted (\<open>Stop\<close>) or raises (\<open>Fail\<close>).
\<close>

datatype ('x, 'ev) gen =
    Stop "'ev list"
  | Fail "'ev list" error
  | Yield "'ev list" 'x "('x, 'ev) gen"

definition enumerate_py :: "'x list \<Rightarrow> (int \<times> 'x) list" where
  "enumerate_py xs = zip (map int [0..<length xs]) xs"

definition due :: "int option \<Rightarrow> int \<Rightarrow> bool" where
  "due status_interval n =
     (case status_interval of
        None \<Rightarrow> False
      | Some i \<Rightarrow> i \<noteq> 0 \<and> (n + 1) mod i = 0)"

fun status_iter_loop ::
  "('a, 'k, 'v, 'p, 'i, 'u) env \<Rightarrow> int option \<Rightarrow> string \<Rightarrow> int \<Rightarrow> (int \<times> 'a) list
     \<Rightarrow> ('a, ('a, 'k, 'v, 'p) event) gen" where
  "status_iter_loop env status_interval message_template n [] =
     (case status env (Done (Template message_template (n + 1))) of
        (evs, Inl e) \<Rightarrow> Fail evs e
      | (evs, Inr _) \<Rightarrow> Stop evs)"
| "status_iter_loop env status_interval message_template n0 ((n, item) # rest) =
     (case (if due status_interval n
            then status env (Template message_template (n + 1))
            else ret ()) of
        (evs, Inl e) \<Rightarrow> Fail evs e
      | (evs, Inr _) \<Rightarrow>
          Yield evs item (status_iter_loop env status_interval message_template n rest))"

definition status_iter ::
  "('a, 'k, 'v, 'p, 'i, 'u) env \<Rightarrow> ('a, 'k, 'v, 'p) worker \<Rightarrow> 'a list \<Rightarrow> string
     \<Rightarrow> ('a, ('a, 'k, 'v, 'p) event) gen" where
  "status_iter env self iterator message_template =
     status_iter_loop env (self_status_interval self) message_template (- 1)
       (enumerate_py iterator)"

text \<open>What consumers of a generator observe.\<close>

fun gen_items :: "('x, 'ev) gen \<Rightarrow> 'x list" where
  "gen_items (Stop evs) = []"
| "gen_items (Fail evs e) = []"
| "gen_items (Yield evs x g) = x # gen_items g"

fun gen_yields :: "('x, 'ev) gen \<Rightarrow> ('ev list \<times> 'x) list" where
  "gen_yields (Stop evs) = []"
| "gen_yields (Fail evs e) = []"
| "gen_yields (Yield evs x g) = (evs, x) # gen_yields g"

fun gen_end :: "('x, 'ev) gen \<Rightarrow> 'ev list \<times> error option" where
  "gen_end (Stop evs) = (evs, None)"
| "gen_end (Fail evs e) = (evs, Some e)"
| "gen_end (Yield evs x g) = gen_end g"

text \<open>\<open>gen_take k g\<close>: \<open>next()\<close> is called \<open>k\<close> times, stopping early at exhaustion.\<close>

fun gen_take :: "nat \<Rightarrow> ('x, 'ev) gen \<Rightarrow> ('ev, ('x, 'ev) gen) run" where
  "gen_take 0 g = ret g"
| "gen_take (Suc k) (Stop evs) = (evs, Inr (Stop []))"
| "gen_take (Suc k) (Fail evs e) = (evs, Inl e)"
| "gen_take (Suc k) (Yield evs x g) = bind (evs, Inr ()) (\<lambda>_. gen_take k g)"

section \<open>Map pipeline\<close>

text \<open>\<open>x or ()\<close> on the result of a combiner.\<close>

definition or_empty :: "'x list option \<Rightarrow> 'x list" where
  "or_empty x = (case x of None \<Rightarrow> [] | Some xs \<Rightarrow> xs)"

text \<open>\<open>for record in records: output(part).add(*record)\<close>\<close>

fun add_records ::
  "string option \<Rightarrow> ('k \<times> 'v) list \<Rightarrow> (('a, 'k, 'v, 'p) event, unit) run" where
  "add_records part [] = ret ()"
| "add_records part ((k, v) # rest) = bind (emit (Add part k v)) (\<lambda>_. add_records part rest)"

definition call_init ::
  "mode \<Rightarrow> ('a, 'p) init_fn \<Rightarrow> ('a, ('a, 'k, 'v, 'p) event) gen \<Rightarrow> 'p
     \<Rightarrow> (('a, 'k, 'v, 'p) event, ('a, ('a, 'k, 'v, 'p) event) gen) run" where
  "call_init m init entries params =
     bind (emit (InitCall m (gen_items entries) params)) (\<lambda>_.
       case init (gen_items entries) params of
         Inl e \<Rightarrow> raise (Raised e)
       | Inr k \<Rightarrow> gen_take k entries)"

definition call_map ::
  "('a, 'k, 'v, 'p) worker \<Rightarrow> 'a \<Rightarrow> 'p \<Rightarrow> (('a, 'k, 'v, 'p) event, ('k \<times> 'v) list) run" where
  "call_map self entry params =
     (case self_map self of
        Fn f \<Rightarrow>
          bind (emit (MapCall entry params)) (\<lambda>_.
            case f entry params of
              Inl e \<Rightarrow> raise (Raised e)
            | Inr records \<Rightarrow> ret records)
      | _ \<Rightarrow> raise (TypeError ''object is not callable''))"

text \<open>
  \<open>part = None; if self['partitions']: part = str(self['partition'](key,
  self['partitions'], params))\<close>
\<close>

definition choose_part ::
  "('a, 'k, 'v, 'p) worker \<Rightarrow> 'k \<Rightarrow> 'p \<Rightarrow> (('a, 'k, 'v, 'p) event, string option) run" where
  "choose_part self key params =
     (case self_partitions self of
        None \<Rightarrow> ret None
      | Some n \<Rightarrow>
          if n = 0 then ret None
          else
            bind (emit (PartitionCall key n params)) (\<lambda>_.
              case self_partition self key n params of
                Inl e \<Rightarrow> raise (Raised e)
              | Inr r \<Rightarrow> ret (Some (str_int r))))"

definition call_combiner ::
  "('a, 'k, 'v, 'p) worker \<Rightarrow> string option \<Rightarrow> 'k option \<Rightarrow> 'v option \<Rightarrow> ('k, 'v) buf
     \<Rightarrow> bool \<Rightarrow> 'p
     \<Rightarrow> (('a, 'k, 'v, 'p) event, ('k, 'v) buf \<times> ('k \<times> 'v) list) run" where
  "call_combiner self part key val buf final params =
     (case self_combiner self of
        None \<Rightarrow> raise (TypeError ''object is not callable'')
      | Some combiner \<Rightarrow>
          bind (emit (CombinerCall part key val buf final params)) (\<lambda>_.
            case combiner key val buf final params of
              Inl e \<Rightarrow> raise (Raised e)
            | Inr (buf', records) \<Rightarrow> ret (buf', or_empty records)))"

text \<open>
  The body of the inner loop, for one record of the map function. \<open>bufs\<close> is the dict
  of partition buffers, as an association list in insertion order.
\<close>

type_synonym ('k, 'v) bufs = "(string option \<times> ('k, 'v) buf) list"

definition map_record ::
  "('a, 'k, 'v, 'p) worker \<Rightarrow> 'p \<Rightarrow> 'k \<times> 'v \<Rightarrow> ('k, 'v) bufs
     \<Rightarrow> (('a, 'k, 'v, 'p) event, ('k, 'v) bufs) run" where
  "map_record self params record bufs =
     (case record of (key, val) \<Rightarrow>
        bind (choose_part self key params) (\<lambda>part.
          if self_combiner self \<noteq> None then
            let bufs1 = (if map_of bufs part = None then AList.update part [] bufs else bufs)
            in (case map_of bufs1 part of
                  None \<Rightarrow> raise (KeyError ''part'')
                | Some buf \<Rightarrow>
                    bind (call_combiner self part (Some key) (Some val) buf False params)
                      (\<lambda>(buf', records).
                        bind (add_records part records) (\<lambda>_.
                          ret (AList.update part buf' bufs1))))
          else bind (emit (Add part key val)) (\<lambda>_. ret bufs)))"

fun map_records ::
  "('a, 'k, 'v, 'p) worker \<Rightarrow> 'p \<Rightarrow> ('k \<times> 'v) list \<Rightarrow> ('k, 'v) bufs
     \<Rightarrow> (('a, 'k, 'v, 'p) event, ('k, 'v) bufs) run" where
  "map_records self params [] bufs = ret bufs"
| "map_records self params (record # rest) bufs =
     bind (map_record self params record bufs) (map_records self params rest)"

text \<open>\<open>for entry in entries: for key, val in self['map'](entry, params): ...\<close>\<close>

fun map_entries ::
  "('a, 'k, 'v, 'p) worker \<Rightarrow> 'p \<Rightarrow> ('a, ('a, 'k, 'v, 'p) event) gen \<Rightarrow> ('k, 'v) bufs
     \<Rightarrow> (('a, 'k, 'v, 'p) event, ('k, 'v) bufs) run" where
  "map_entries self params (Stop evs) bufs = (evs, Inr bufs)"
| "map_entries self params (Fail evs e) bufs = (evs, Inl e)"
| "map_entries self params (Yield evs entry g) bufs =
     bind (evs, Inr ()) (\<lambda>_.
       bind (call_map self entry params) (\<lambda>records.
         bind (map_records self params records bufs) (map_entries self params g)))"

text \<open>
  \<open>for part, buf in bufs.items(): for record in self['combiner'](None, None, buf, True,
  params) or (): output(part).add(*record)\<close>
\<close>

fun flush ::
  "('a, 'k, 'v, 'p) worker \<Rightarrow> 'p \<Rightarrow> ('k, 'v) bufs \<Rightarrow> (('a, 'k, 'v, 'p) event, unit) run" where
  "flush self params [] = ret ()"
| "flush self params ((part, buf) # rest) =
     bind (call_combiner self part None None buf True params) (\<lambda>(buf', records).
       bind (add_records part records) (\<lambda>_. flush self params rest))"

definition Worker_map ::
  "('a, 'k, 'v, 'p, 'i, 'u) env \<Rightarrow> ('a, 'k, 'v, 'p) worker \<Rightarrow> ('a, 'i) task \<Rightarrow> 'p
     \<Rightarrow> (('a, 'k, 'v, 'p) event, unit) run" where
  "Worker_map env self task params =
     (if self_save self \<and> truthy_int (self_partitions self) \<and> \<not> truthy_slot (self_reduce self)
      then raise (NotImplementedError
                    ''Storing partitioned outputs in DDFS is not yet supported'')
      else
        bind (call_init Map (self_map_init self)
                (status_iter env self (task_input task) ''%s entries mapped'') params)
          (\<lambda>entries.
            bind (map_entries self params entries []) (\<lambda>bufs.
              flush self params bufs)))"

section \<open>Reduce pipeline\<close>

definition Worker_sort ::
  "('a, 'k, 'v, 'p, 'i, 'u) env \<Rightarrow> ('a, 'k, 'v, 'p) worker \<Rightarrow> 'a list \<Rightarrow> ('a, 'i) task
     \<Rightarrow> 'a list" where
  "Worker_sort env self input task =
     (if self_sort self
      then disk_sort env input (task_path task ''sort.dl'') (self_sort_buffer_size self)
      else input)"

text \<open>
  \<open>partition = None; if ispartitioned(inputs) and not self['merge_partitions']:
  partition = str(task.taskid)\<close>
\<close>

definition reduce_partition ::
  "('a, 'k, 'v, 'p, 'i, 'u) env \<Rightarrow> ('a, 'k, 'v, 'p) worker \<Rightarrow> ('a, 'i) task
     \<Rightarrow> string option" where
  "reduce_partition env self task =
     (if util_ispartitioned env (task_inputs task) \<and> \<not> self_merge_partitions self
      then Some (str_int (task_taskid task))
      else None)"

text \<open>
  \<open>ordered = self.sort(SerialInput(shuffled(inputlist(inputs, partition=partition)),
  open=...), task)\<close>
\<close>

definition reduce_ordered ::
  "('a, 'k, 'v, 'p, 'i, 'u) env \<Rightarrow> ('a, 'k, 'v, 'p) worker \<Rightarrow> ('a, 'i) task \<Rightarrow> 'a list" where
  "reduce_ordered env self task =
     Worker_sort env self
       (SerialInput env
          (util_shuffled env
             (util_inputlist env (task_inputs task) (reduce_partition env self task))))
       task"

fun sink_writes :: "('k \<times> 'v) list \<Rightarrow> (('a, 'k, 'v, 'p) event, unit) run" where
  "sink_writes [] = ret ()"
| "sink_writes ((k, v) # rest) = bind (emit (SinkAdd k v)) (\<lambda>_. sink_writes rest)"

text \<open>
  One call of the reduce function. The entries it takes from the iterator are taken
  while it runs; what it writes itself goes to the sink only when it was given one.
\<close>

definition call_reduce ::
  "('a, 'k, 'v, 'p) reduce_fn \<Rightarrow> ('a, 'p) reduce_args \<Rightarrow> ('a, ('a, 'k, 'v, 'p) event) gen
     \<Rightarrow> (('a, 'k, 'v, 'p) event, ('k \<times> 'v) list) run" where
  "call_reduce reduce args entries =
     bind (emit (ReduceCall args)) (\<lambda>_.
       case call reduce args of
         Inl e \<Rightarrow> raise (Raised e)
       | Inr res \<Rightarrow>
           bind (gen_take (taken res) entries) (\<lambda>_.
             bind (case args of
                     Args2 es ps \<Rightarrow> ret ()
                   | Args3 es out ps \<Rightarrow> sink_writes (written res)) (\<lambda>_.
               ret (returned res))))"

definition Worker_reduce ::
  "('a, 'k, 'v, 'p, 'i, 'u) env \<Rightarrow> ('a, 'k, 'v, 'p) worker \<Rightarrow> ('a, 'i) task \<Rightarrow> 'p
     \<Rightarrow> (('a, 'k, 'v, 'p) event, unit) run" where
  "Worker_reduce env self task params =
     (let ordered = reduce_ordered env self task;
          output = Sink None
      in bind (call_init Reduce (self_reduce_init self)
                 (status_iter env self ordered ''%s entries reduced'') params)
           (\<lambda>entries.
             case self_reduce self of
               Fn reduce \<Rightarrow>
                 if argcount reduce < 3 then
                   bind (call_reduce reduce (Args2 (gen_items entries) params) entries)
                     (\<lambda>records. add_records None records)
                 else
                   bind (call_reduce reduce (Args3 (gen_items entries) output params) entries)
                     (\<lambda>_. ret ())
             | _ \<Rightarrow> raise (TypeError ''object is not callable'')))"

section \<open>Task orchestrator\<close>

text \<open>
  \<open>params = self['params']; if isinstance(self[task.mode], dict): params =
  self['ext_params']; self[task.mode] = external.prepare(params, task.mode)\<close>
\<close>

definition prepare ::
  "('a, 'k, 'v, 'p, 'i, 'u) env \<Rightarrow> ('a, 'k, 'v, 'p) worker \<Rightarrow> ('a, 'i) task
     \<Rightarrow> (('a, 'k, 'v, 'p) event, ('a, 'k, 'v, 'p) worker \<times> 'p) run" where
  "prepare env self task =
     (case task_mode task of
        Map \<Rightarrow>
          if is_dict (self_map self) then
            bind (emit (ExternalPrepare (self_ext_params self) Map)) (\<lambda>_.
              ret (self\<lparr>self_map := Fn (external_prepare_map env (self_ext_params self))\<rparr>,
                   self_ext_params self))
          else ret (self, self_params self)
      | Reduce \<Rightarrow>
          if is_dict (self_reduce self) then
            bind (emit (ExternalPrepare (self_ext_params self) Reduce)) (\<lambda>_.
              ret (self\<lparr>self_reduce :=
                           Fn (external_prepare_reduce env (self_ext_params self))\<rparr>,
                   self_ext_params self))
          else ret (self, self_params self))"

text \<open>\<open>getattr(self, task.mode)(task, params)\<close>\<close>

definition dispatch ::
  "('a, 'k, 'v, 'p, 'i, 'u) env \<Rightarrow> ('a, 'k, 'v, 'p) worker \<Rightarrow> ('a, 'i) task \<Rightarrow> 'p
     \<Rightarrow> (('a, 'k, 'v, 'p) event, unit) run" where
  "dispatch env self task params =
     (case task_mode task of
        Map \<Rightarrow> Worker_map env self task params
      | Reduce \<Rightarrow> Worker_reduce env self task params)"

definition Worker_run ::
  "('a, 'k, 'v, 'p, 'i, 'u) env \<Rightarrow> ('a, 'k, 'v, 'p) worker \<Rightarrow> ('a, 'i) task
     \<Rightarrow> (('a, 'k, 'v, 'p) event, unit) run" where
  "Worker_run env self task =
     (if self_version self \<noteq> sys_version env
      then raise (AssertionError ''Python version mismatch'')
      else
        bind (prepare env self task) (\<lambda>(self', params).
          bind (dispatch env self' task params) (\<lambda>_.
            emit ExternalClose)))"

section \<open>Stream chain\<close>

text \<open>
  A handle is Python's \<open>None\<close> or an object; what \<open>hasattr(fd, 'close')\<close> and
  \<open>fd.close()\<close> do is part of the object.
\<close>

datatype close_op = NoClose | CloseReturns | CloseRaises string

datatype fd = PyNone | Handle nat close_op

fun fd_close :: "fd \<Rightarrow> close_op" where
  "fd_close PyNone = NoClose"
| "fd_close (Handle i c) = c"

text \<open>
  What a stage returns: a plain handle, or a tuple of length 2, of length 3, or of
  another length.
\<close>

datatype ('s, 'u) stage_result =
    Plain fd
  | Tuple2 fd 'u
  | Tuple3 fd 's 'u
  | TupleOther nat

record ('s, 'u, 'p) stage =
  stage_argcount :: nat
  stage_call :: "fd \<Rightarrow> 's \<Rightarrow> 'u \<Rightarrow> 'p list \<Rightarrow> string + ('s, 'u) stage_result"

datatype ('s, 'u, 'p) file_event =
    StageCall nat fd 's 'u "'p list"
  | CloseCall fd

text \<open>
  The loop of \<open>ClassicFile.__init__\<close>; \<open>i\<close> counts the stages already applied. It
  returns \<open>self.fds\<close> and the final values of the locals \<open>fd\<close>, \<open>size\<close> and \<open>url\<close>.
\<close>

definition maybe_params :: "('s, 'u, 'p) stage \<Rightarrow> 'p \<Rightarrow> 'p list" where
  "maybe_params stream params = (if stage_argcount stream = 4 then [params] else [])"

fun ClassicFile_loop ::
  "nat \<Rightarrow> ('s, 'u, 'p) stage list \<Rightarrow> 'p \<Rightarrow> fd \<Rightarrow> 's \<Rightarrow> 'u \<Rightarrow> fd list
     \<Rightarrow> (('s, 'u, 'p) file_event, fd list \<times> fd \<times> 's \<times> 'u) run" where
  "ClassicFile_loop i [] params fd fsize url fds = ret (fds, fd, fsize, url)"
| "ClassicFile_loop i (stream # streams) params fd fsize url fds =
     bind (emit (StageCall i fd fsize url (maybe_params stream params))) (\<lambda>_.
       case stage_call stream fd fsize url (maybe_params stream params) of
         Inl e \<Rightarrow> raise (Raised e)
       | Inr (Plain fd') \<Rightarrow>
           ClassicFile_loop (Suc i) streams params fd' fsize url (fds @ [fd'])
       | Inr (Tuple3 fd' fsize' url') \<Rightarrow>
           ClassicFile_loop (Suc i) streams params fd' fsize' url' (fds @ [fd'])
       | Inr (Tuple2 fd' url') \<Rightarrow>
           ClassicFile_loop (Suc i) streams params fd' fsize url' (fds @ [fd'])
       | Inr (TupleOther n) \<Rightarrow> raise (ValueError ''unpack''))"

definition ClassicFile_init ::
  "'u \<Rightarrow> ('s, 'u, 'p) stage list \<Rightarrow> 'p \<Rightarrow> fd \<Rightarrow> 's
     \<Rightarrow> (('s, 'u, 'p) file_event, fd list) run" where
  "ClassicFile_init url streams params fd fsize =
     bind (ClassicFile_loop 0 streams params fd fsize url []) (\<lambda>(fds, fd', fsize', url').
       ret fds)"

text \<open>\<open>for fd in reversed(self.fds): if hasattr(fd, 'close'): fd.close()\<close>\<close>

fun close_loop :: "fd list \<Rightarrow> (('s, 'u, 'p) file_event, unit) run" where
  "close_loop [] = ret ()"
| "close_loop (fd # rest) =
     (case fd_close fd of
        NoClose \<Rightarrow> close_loop rest
      | CloseReturns \<Rightarrow> bind (emit (CloseCall fd)) (\<lambda>_. close_loop rest)
      | CloseRaises e \<Rightarrow> bind (emit (CloseCall fd)) (\<lambda>_. raise (Raised e)))"

definition ClassicFile_close :: "fd list \<Rightarrow> (('s, 'u, 'p) file_event, unit) run" where
  "ClassicFile_close fds = close_loop (rev fds)"

definition has_close :: "fd \<Rightarrow> bool" where
  "has_close fd = (fd_close fd \<noteq> NoClose)"

definition close_raises :: "fd \<Rightarrow> bool" where
  "close_raises fd = (case fd_close fd of CloseRaises e \<Rightarrow> True | _ \<Rightarrow> False)"

section \<open>Laws of sequencing\<close>

lemma bind_ret [simp]: "bind (ret x) f = f x"
  by (simp add: bind_def ret_def split: prod.splits)

lemma bind_raise [simp]: "bind (raise e) f = raise e"
  by (simp add: bind_def raise_def)

lemma prepend_pair [simp]: "prepend evs (es, r) = (evs @ es, r)"
  by (simp add: prepend_def)

lemma prepend_Nil [simp]: "prepend [] m = m"
  by (simp add: prepend_def)

lemma prepend_prepend [simp]: "prepend xs (prepend ys m) = prepend (xs @ ys) m"
  by (simp add: prepend_def)

lemma fst_prepend [simp]: "fst (prepend evs m) = evs @ fst m"
  by (simp add: prepend_def)

lemma snd_prepend [simp]: "snd (prepend evs m) = snd m"
  by (simp add: prepend_def)

lemma bind_emit [simp]: "bind (emit ev) f = prepend [ev] (f ())"
  by (simp add: bind_def emit_def prepend_def split: prod.splits)

lemma bind_events [simp]: "bind (evs, Inr x) f = prepend evs (f x)"
  by (simp add: bind_def prepend_def split: prod.splits)

lemma bind_failed [simp]: "bind (evs, Inl e) f = (evs, Inl e)"
  by (simp add: bind_def)

lemma bind_prepend [simp]: "bind (prepend evs m) f = prepend evs (bind m f)"
  by (cases m; cases "snd m") (auto simp: bind_def prepend_def split: prod.splits sum.splits)

lemma bind_assoc: "bind (bind m f) g = bind m (\<lambda>x. bind (f x) g)"
  by (cases m; cases "snd m") (auto simp: bind_def split: prod.splits sum.splits)

lemma fst_bind:
  "fst (bind m f) = (case snd m of Inl e \<Rightarrow> fst m | Inr x \<Rightarrow> fst m @ fst (f x))"
  by (cases m) (auto simp: bind_def split: prod.splits sum.splits)

lemma snd_bind: "snd (bind m f) = (case snd m of Inl e \<Rightarrow> Inl e | Inr x \<Rightarrow> snd (f x))"
  by (cases m) (auto simp: bind_def split: prod.splits sum.splits)

section \<open>Closing a stream chain\<close>

lemma close_loop_no_raise:
  "\<forall>fd \<in> set fds. \<not> close_raises fd \<Longrightarrow>
   close_loop fds = (map CloseCall (filter has_close fds), Inr ())"
  by (induction fds) (auto simp: ret_def has_close_def close_raises_def split: close_op.splits)

lemma close_loop_append:
  "\<forall>fd \<in> set xs. \<not> close_raises fd \<Longrightarrow>
   close_loop (xs @ ys) =
     bind (map CloseCall (filter has_close xs), Inr ()) (\<lambda>_. close_loop ys)"
  by (induction xs) (auto simp: ret_def has_close_def close_raises_def split: close_op.splits)

text \<open>
  C2, as the code has it. \<open>ClassicFile.close\<close> calls \<open>close\<close> on the handles in the
  reverse of construction order and skips the handles that have no \<open>close\<close>. When no
  \<open>close\<close> raises, every handle that has one is closed. When the \<open>close\<close> of a handle
  raises, the handles constructed after it have been closed, the error is raised to the
  caller, and no handle constructed before it is closed.
\<close>

theorem ClassicFile_close_order:
  "((\<forall>fd \<in> set fds. \<not> close_raises fd) \<longrightarrow>
      ClassicFile_close fds = (map CloseCall (filter has_close (rev fds)), Inr ())) \<and>
   (fd_close fd = CloseRaises e \<and> (\<forall>x \<in> set later. \<not> close_raises x) \<longrightarrow>
      ClassicFile_close (earlier @ fd # later) =
        (map CloseCall (filter has_close (rev later)) @ [CloseCall fd], Inl (Raised e)))"
  by (simp add: ClassicFile_close_def close_loop_no_raise close_loop_append raise_def)

theorem ClassicFile_close_order_witness:
  "(ClassicFile_close [Handle 1 CloseReturns, PyNone, Handle 3 CloseReturns]
      :: ((nat, string, unit) file_event, unit) run) =
     ([CloseCall (Handle 3 CloseReturns), CloseCall (Handle 1 CloseReturns)], Inr ()) \<and>
   (ClassicFile_close
      ([Handle 1 CloseReturns] @ Handle 2 (CloseRaises ''boom'') # [PyNone, Handle 4 CloseReturns])
      :: ((nat, string, unit) file_event, unit) run) =
     ([CloseCall (Handle 4 CloseReturns), CloseCall (Handle 2 (CloseRaises ''boom''))],
      Inl (Raised ''boom''))"
  using ClassicFile_close_order
    [where fds = "[Handle 1 CloseReturns, PyNone, Handle 3 CloseReturns]"
       and fd = "Handle 2 (CloseRaises ''boom'')" and e = "''boom''"
       and later = "[PyNone, Handle 4 CloseReturns]" and earlier = "[Handle 1 CloseReturns]"
       and ?'a = nat and ?'b = string and ?'c = unit]
  by (simp add: has_close_def close_raises_def)

text \<open>
  C2, as the claim states it, fails: in a chain of three handles whose second \<open>close\<close>
  raises, the third and the second are closed and the first is never attempted.
\<close>

theorem ClassicFile_close_counterexample:
  "(ClassicFile_close
      [Handle 1 CloseReturns, Handle 2 (CloseRaises ''boom''), Handle 3 CloseReturns]
      :: ((nat, string, unit) file_event, unit) run) =
   ([CloseCall (Handle 3 CloseReturns), CloseCall (Handle 2 (CloseRaises ''boom''))],
    Inl (Raised ''boom''))"
  by (simp add: ClassicFile_close_def raise_def)

end
